theory Spec2Isabelle
  imports Main
begin

section \<open>Schema catalog: what \<open>sa.inspect\<close> and attribute access expose\<close>

text \<open>
  A mapped class is identified by its name. The catalog plays the role of
  \<^verbatim>\<open>sa.inspect(entity)\<close>: it gives the columns (keyed by attribute name, in
  declaration order) and the relationships of a class.
\<close>

type_synonym cls = string

text \<open>A join condition of the catalog (\<^verbatim>\<open>primaryjoin\<close>, \<^verbatim>\<open>secondaryjoin\<close>), kept opaque.\<close>

type_synonym clause = string

type_synonym session = nat

record foreign_key =
  parent :: string
  target_fullname :: string

record table =
  table_name :: string
  foreign_keys :: "foreign_key list"

record column =
  column_name :: string
  primary_key :: bool
  column_table :: table

record relationship =
  key :: string
  mapper_class :: cls
  uselist :: bool
  primaryjoin :: clause
  secondary :: "string option"
  secondaryjoin :: "clause option"

record mapped_class =
  columns :: "(string \<times> column) list"
  relationships :: "(string \<times> relationship) list"

type_synonym catalog = "cls \<Rightarrow> mapped_class option"

text \<open>The exceptions the builder can end with.\<close>

datatype error =
    KeyError
  | TypeError
  | AttributeError
  | IndexError
  | NoInspectionAvailable

section \<open>Query objects\<close>

text \<open>
  An entity used in a query is the class itself or the object made by
  \<^verbatim>\<open>sa.orm.aliased(cls)\<close>; \<^verbatim>\<open>select_aggregate\<close> makes at most one such object.
\<close>

datatype entity_ref = Plain cls | Aliased cls

fun class_of :: "entity_ref \<Rightarrow> cls" where
  "class_of (Plain c) = c"
| "class_of (Aliased c) = c"

text \<open>\<^verbatim>\<open>getattr(entity, name)\<close> on a class or an alias of it.\<close>

datatype attribute = InstrumentedAttribute entity_ref string

text \<open>
  The two ways \<^verbatim>\<open>Query.join\<close> is called: on a relationship attribute, with or
  without \<^verbatim>\<open>aliased=True\<close>, and on a secondary table with its join condition.
\<close>

datatype join =
    JoinAttribute attribute bool
  | JoinSecondary string "clause option"

datatype sql_expr =
    Text string
  | AttributeExpr attribute
  | ColumnExpr column
  | JsonBuildObject "sql_expr list"
  | ArrayAgg sql_expr
  | Cast sql_expr string
  | Label sql_expr string
  | AsScalar selectable
and selectable =
    Query session sql_expr entity_ref "join list" "clause list"
  | Union selectable selectable
  | Select "sql_expr list" "from_obj option"
  | Correlate selectable cls
and from_obj =
    FromEntity cls
  | Alias selectable string
  | Subquery selectable string

text \<open>\<^verbatim>\<open>def s(value): return sa.text("'{}'".format(value))\<close>\<close>

definition s :: "string \<Rightarrow> sql_expr" where
  "s v = Text (CHR 0x27 # v @ [CHR 0x27])"

text \<open>\<^verbatim>\<open>column in (fk.parent for fk in column.table.foreign_keys)\<close>\<close>

definition has_foreign_key :: "column \<Rightarrow> bool" where
  "has_foreign_key c \<longleftrightarrow> column_name c \<in> set (map parent (foreign_keys (column_table c)))"

definition getattr :: "catalog \<Rightarrow> entity_ref \<Rightarrow> string \<Rightarrow> error + attribute" where
  "getattr cat e name =
     (case cat (class_of e) of
        None \<Rightarrow> Inl AttributeError
      | Some m \<Rightarrow>
          if name \<in> set (map fst (columns m)) \<or> name \<in> set (map fst (relationships m))
          then Inr (InstrumentedAttribute e name)
          else Inl AttributeError)"

definition inspect :: "catalog \<Rightarrow> cls \<Rightarrow> error + mapped_class" where
  "inspect cat c = (case cat c of None \<Rightarrow> Inl NoInspectionAvailable | Some m \<Rightarrow> Inr m)"

section \<open>The \<open>fields\<close> argument\<close>

text \<open>
  \<^verbatim>\<open>fields\<close> is \<^verbatim>\<open>None\<close> or a dict from alias to a list of field names; the dict is
  an association list with distinct keys.
\<close>

type_synonym fields = "(string \<times> string list) list option"

text \<open>Truth value of \<^verbatim>\<open>fields\<close>: \<^verbatim>\<open>None\<close> and the empty dict are false.\<close>

fun truthy :: "fields \<Rightarrow> bool" where
  "truthy None = False"
| "truthy (Some []) = False"
| "truthy (Some (x # xs)) = True"

text \<open>\<^verbatim>\<open>name in fields\<close>: a \<^verbatim>\<open>TypeError\<close> on \<^verbatim>\<open>None\<close>.\<close>

fun contains :: "fields \<Rightarrow> string \<Rightarrow> error + bool" where
  "contains None name = Inl TypeError"
| "contains (Some d) name = Inr (map_of d name \<noteq> None)"

text \<open>\<^verbatim>\<open>fields[name]\<close>\<close>

fun getitem :: "fields \<Rightarrow> string \<Rightarrow> error + string list" where
  "getitem None name = Inl TypeError"
| "getitem (Some d) name = (case map_of d name of None \<Rightarrow> Inl KeyError | Some l \<Rightarrow> Inr l)"

section \<open>\<open>JSONMapping\<close>\<close>

record JSONMapping =
  mapping :: "(string \<times> cls) list option"
  inversed :: "(cls \<Rightarrow> string option) option"

text \<open>
  \<^verbatim>\<open>__init__\<close>: the inverse dict is built pair by pair, so a later pair overwrites an
  earlier one with the same class; no mapping, or an empty one, leaves \<^verbatim>\<open>None\<close>.
\<close>

definition init :: "(string \<times> cls) list option \<Rightarrow> JSONMapping" where
  "init m =
     \<lparr> mapping = m,
       inversed = (case m of
                     None \<Rightarrow> None
                   | Some [] \<Rightarrow> None
                   | Some items \<Rightarrow> Some (map_of (rev (map (\<lambda>(k, v). (v, k)) items)))) \<rparr>"

text \<open>\<^verbatim>\<open>self.inversed[entity]\<close>\<close>

definition inversed_getitem :: "JSONMapping \<Rightarrow> cls \<Rightarrow> error + string" where
  "inversed_getitem self entity =
     (case inversed self of
        None \<Rightarrow> Inl TypeError
      | Some d \<Rightarrow> (case d entity of None \<Rightarrow> Inl KeyError | Some a \<Rightarrow> Inr a))"

text \<open>
  \<^verbatim>\<open>skip_field\<close> of \<^verbatim>\<open>build_attributes\<close>. The third disjunct is evaluated only
  when the first two are false, and \<^verbatim>\<open>fields[entity_name]\<close> only when the alias is
  a key, so it cannot raise.
\<close>

definition skip_field :: "fields \<Rightarrow> string \<Rightarrow> string \<Rightarrow> column \<Rightarrow> bool" where
  "skip_field flds entity_name k c \<longleftrightarrow>
     primary_key c \<or> has_foreign_key c \<or>
     (truthy flds \<and>
      (case flds of
         None \<Rightarrow> False
       | Some d \<Rightarrow> (case map_of d entity_name of None \<Rightarrow> False | Some l \<Rightarrow> k \<notin> set l)))"

definition build_attributes :: "JSONMapping \<Rightarrow> catalog \<Rightarrow> cls \<Rightarrow> fields \<Rightarrow> error + sql_expr list" where
  "build_attributes self cat entity flds =
     (case inversed_getitem self entity of
        Inl e \<Rightarrow> Inl e
      | Inr entity_name \<Rightarrow>
          (case inspect cat entity of
             Inl e \<Rightarrow> Inl e
           | Inr m \<Rightarrow>
               Inr (concat (map (\<lambda>(k, c). [s k, ColumnExpr c])
                      (filter (\<lambda>(k, c). \<not> skip_field flds entity_name k c) (columns m))))))"

definition build_id_and_type :: "JSONMapping \<Rightarrow> catalog \<Rightarrow> cls \<Rightarrow> error + sql_expr list" where
  "build_id_and_type self cat model =
     (case inversed_getitem self model of
        Inl e \<Rightarrow> Inl e
      | Inr model_alias \<Rightarrow>
          (case getattr cat (Plain model) ''id'' of
             Inl e \<Rightarrow> Inl e
           | Inr a \<Rightarrow> Inr [s ''id'', AttributeExpr a, s ''type'', s model_alias]))"

section \<open>\<open>select_aggregate\<close>\<close>

text \<open>
  The loop \<^verbatim>\<open>for relationship in relationships[0:-2]\<close>: its state is the variable
  \<^verbatim>\<open>alias\<close> and the joins added to the query so far.
\<close>

fun join_hops :: "catalog \<Rightarrow> relationship list \<Rightarrow> entity_ref \<Rightarrow> join list \<Rightarrow> error + (entity_ref \<times> join list)" where
  "join_hops cat [] alias joins = Inr (alias, joins)"
| "join_hops cat (r # rs) alias joins =
     (case getattr cat alias (key r) of
        Inl e \<Rightarrow> Inl e
      | Inr a \<Rightarrow> join_hops cat rs (Plain (mapper_class r)) (joins @ [JoinAttribute a True]))"

definition select_aggregate :: "catalog \<Rightarrow> session \<Rightarrow> sql_expr \<Rightarrow> relationship list \<Rightarrow> error + selectable" where
  "select_aggregate cat session agg_expr rels =
     (case (if length rels > 1
            then (case join_hops cat (take (length rels - 2) rels) (Aliased (mapper_class (rels ! 0))) [] of
                    Inl e \<Rightarrow> Inl e
                  | Inr (alias, joins) \<Rightarrow>
                      (case getattr cat alias (key (rels ! (length rels - 2))) of
                         Inl e \<Rightarrow> Inl e
                       | Inr a \<Rightarrow> Inr (Aliased (mapper_class (rels ! 0)), joins @ [JoinAttribute a False])))
            else (case rels of
                    [] \<Rightarrow> Inl IndexError
                  | r # _ \<Rightarrow> Inr (Plain (mapper_class r), [])))
      of
        Inl e \<Rightarrow> Inl e
      | Inr (from_entity, joins) \<Rightarrow>
          Inr (Query session agg_expr from_entity
                 (joins @ (case secondary (last rels) of
                             None \<Rightarrow> []
                           | Some t \<Rightarrow> [JoinSecondary t (secondaryjoin (last rels))]))
                 [primaryjoin (last rels)]))"

section \<open>Resource objects\<close>

text \<open>
  The list comprehension of \<^verbatim>\<open>build_relationships\<close>: \<^verbatim>\<open>sa.inspect(entity)\<close> is
  called once per selected field, so not at all for an empty list.
\<close>

definition selected_relationships :: "catalog \<Rightarrow> cls \<Rightarrow> string list \<Rightarrow> error + relationship list" where
  "selected_relationships cat entity names =
     (if names = [] then Inr []
      else (case inspect cat entity of
              Inl e \<Rightarrow> Inl e
            | Inr m \<Rightarrow> Inr (List.map_filter (map_of (relationships m)) names)))"

text \<open>The loop \<^verbatim>\<open>for relationship in relationships\<close> of \<^verbatim>\<open>build_relationships\<close>.\<close>

fun json_relationships :: "JSONMapping \<Rightarrow> catalog \<Rightarrow> session \<Rightarrow> cls \<Rightarrow> relationship list \<Rightarrow> error + sql_expr list" where
  "json_relationships self cat session entity [] = Inr []"
| "json_relationships self cat session entity (r # rs) =
     (case build_id_and_type self cat (mapper_class r) of
        Inl e \<Rightarrow> Inl e
      | Inr relationship_attrs \<Rightarrow>
          (case select_aggregate cat session
                  (if uselist r then ArrayAgg (JsonBuildObject relationship_attrs)
                   else JsonBuildObject relationship_attrs) [r] of
             Inl e \<Rightarrow> Inl e
           | Inr query \<Rightarrow>
               (case json_relationships self cat session entity rs of
                  Inl e \<Rightarrow> Inl e
                | Inr rest \<Rightarrow>
                    Inr ([s (key r), JsonBuildObject [s ''data'', AsScalar (Correlate query entity)]]
                         @ rest))))"

definition build_relationships :: "JSONMapping \<Rightarrow> catalog \<Rightarrow> session \<Rightarrow> cls \<Rightarrow> fields \<Rightarrow> error + sql_expr list" where
  "build_relationships self cat session entity flds =
     (case inversed_getitem self entity of
        Inl e \<Rightarrow> Inl e
      | Inr model_alias \<Rightarrow>
          (case getitem flds model_alias of
             Inl e \<Rightarrow> Inl e
           | Inr names \<Rightarrow>
               (case selected_relationships cat entity names of
                  Inl e \<Rightarrow> Inl e
                | Inr rels \<Rightarrow> json_relationships self cat session entity rels)))"

definition build_attrs_and_relationships :: "JSONMapping \<Rightarrow> catalog \<Rightarrow> session \<Rightarrow> cls \<Rightarrow> fields \<Rightarrow> error + sql_expr list" where
  "build_attrs_and_relationships self cat session entity flds =
     (case build_attributes self cat entity flds of
        Inl e \<Rightarrow> Inl e
      | Inr attrs \<Rightarrow>
          (case build_relationships self cat session entity flds of
             Inl e \<Rightarrow> Inl e
           | Inr rels \<Rightarrow>
               Inr ((if attrs \<noteq> [] then [s ''attributes'', JsonBuildObject attrs] else [])
                    @ (if rels \<noteq> [] then [s ''relationships'', JsonBuildObject rels] else []))))"

section \<open>The document\<close>

text \<open>
  \<^verbatim>\<open>if fields and model_alias in fields\<close> of \<^verbatim>\<open>build_data\<close>: the membership test
  runs only on a non-empty dict. (\<^verbatim>\<open>build_data\<close> never reads its argument
  \<^verbatim>\<open>include\<close>, which is left out.)
\<close>

definition fields_select :: "fields \<Rightarrow> string \<Rightarrow> bool" where
  "fields_select flds model_alias \<longleftrightarrow>
     truthy flds \<and> (case contains flds model_alias of Inl e \<Rightarrow> False | Inr b \<Rightarrow> b)"

definition build_data :: "JSONMapping \<Rightarrow> catalog \<Rightarrow> session \<Rightarrow> cls \<Rightarrow> fields \<Rightarrow> error + sql_expr list" where
  "build_data self cat session entity flds =
     (case inversed_getitem self entity of
        Inl e \<Rightarrow> Inl e
      | Inr model_alias \<Rightarrow>
          (case build_id_and_type self cat entity of
             Inl e \<Rightarrow> Inl e
           | Inr id_and_type \<Rightarrow>
               (case (if fields_select flds model_alias
                      then build_attrs_and_relationships self cat session entity flds
                      else Inr []) of
                  Inl e \<Rightarrow> Inl e
                | Inr extra \<Rightarrow>
                    Inr [s ''data'',
                         AsScalar (Correlate
                           (Select [ArrayAgg (Text ''main_json.json_object'')]
                              (Some (Alias
                                 (Select [Label (JsonBuildObject (id_and_type @ extra)) ''json_object''] None)
                                 ''main_json'')))
                           entity)])))"

text \<open>
  \<^verbatim>\<open>path_to_relationships(path, entity)\<close> followed by \<^verbatim>\<open>r.property\<close> for each
  attribute it returns: the resolver of include paths, a parameter of the model.
\<close>

type_synonym resolver = "string \<Rightarrow> cls \<Rightarrow> error + relationship list"

text \<open>
  The body of the loop over \<^verbatim>\<open>enumerate(relationships)\<close> in \<^verbatim>\<open>build_included\<close>:
  the sub-query appended to \<^verbatim>\<open>selects\<close> for one prefix of one path.
\<close>

definition included_select :: "JSONMapping \<Rightarrow> catalog \<Rightarrow> session \<Rightarrow> cls \<Rightarrow> fields \<Rightarrow> relationship list \<Rightarrow> nat \<Rightarrow> error + selectable" where
  "included_select self cat session entity flds rels index =
     (case inversed_getitem self (mapper_class (rels ! index)) of
        Inl e \<Rightarrow> Inl e
      | Inr cls_alias \<Rightarrow>
          (case build_id_and_type self cat (mapper_class (rels ! index)) of
             Inl e \<Rightarrow> Inl e
           | Inr main_fields \<Rightarrow>
               (case contains flds cls_alias of
                  Inl e \<Rightarrow> Inl e
                | Inr b \<Rightarrow>
                    (case (if b
                           then (case build_attributes self cat (mapper_class (rels ! index)) flds of
                                   Inl e \<Rightarrow> Inl e
                                 | Inr attrs \<Rightarrow> Inr [s ''attributes'', JsonBuildObject attrs])
                           else Inr []) of
                       Inl e \<Rightarrow> Inl e
                     | Inr extra \<Rightarrow>
                         (case select_aggregate cat session
                                 (Label (Cast (JsonBuildObject (main_fields @ extra)) ''JSONB'') ''json_object'')
                                 (rev (take (index + 1) rels)) of
                            Inl e \<Rightarrow> Inl e
                          | Inr query \<Rightarrow> Inr (Correlate query entity))))))"

text \<open>The loop over the indices of one path's relationships.\<close>

fun included_prefixes :: "JSONMapping \<Rightarrow> catalog \<Rightarrow> session \<Rightarrow> cls \<Rightarrow> fields \<Rightarrow> relationship list \<Rightarrow> nat list \<Rightarrow> error + selectable list" where
  "included_prefixes self cat session entity flds rels [] = Inr []"
| "included_prefixes self cat session entity flds rels (index # indices) =
     (case included_select self cat session entity flds rels index of
        Inl e \<Rightarrow> Inl e
      | Inr q \<Rightarrow>
          (case included_prefixes self cat session entity flds rels indices of
             Inl e \<Rightarrow> Inl e
           | Inr qs \<Rightarrow> Inr (q # qs)))"

text \<open>The loop \<^verbatim>\<open>for path in include\<close>: the list \<^verbatim>\<open>selects\<close>.\<close>

fun included_selects :: "JSONMapping \<Rightarrow> catalog \<Rightarrow> resolver \<Rightarrow> session \<Rightarrow> cls \<Rightarrow> fields \<Rightarrow> string list \<Rightarrow> error + selectable list" where
  "included_selects self cat path_to_relationships session entity flds [] = Inr []"
| "included_selects self cat path_to_relationships session entity flds (path # paths) =
     (case path_to_relationships path entity of
        Inl e \<Rightarrow> Inl e
      | Inr rels \<Rightarrow>
          (case included_prefixes self cat session entity flds rels [0..<length rels] of
             Inl e \<Rightarrow> Inl e
           | Inr qs \<Rightarrow>
               (case included_selects self cat path_to_relationships session entity flds paths of
                  Inl e \<Rightarrow> Inl e
                | Inr rest \<Rightarrow> Inr (qs @ rest))))"

text \<open>
  \<^verbatim>\<open>reduce(lambda a, b: a.union(b), selects)\<close>, with no initial value: a
  \<^verbatim>\<open>TypeError\<close> on the empty list.
\<close>

definition reduce_union :: "selectable list \<Rightarrow> error + selectable" where
  "reduce_union selects =
     (case selects of
        [] \<Rightarrow> Inl TypeError
      | q # qs \<Rightarrow> Inr (foldl Union q qs))"

definition build_included :: "JSONMapping \<Rightarrow> catalog \<Rightarrow> resolver \<Rightarrow> session \<Rightarrow> cls \<Rightarrow> fields \<Rightarrow> string list option \<Rightarrow> error + sql_expr list" where
  "build_included self cat path_to_relationships session entity flds include =
     (case include of
        None \<Rightarrow> Inr []
      | Some [] \<Rightarrow> Inr []
      | Some paths \<Rightarrow>
          (case included_selects self cat path_to_relationships session entity flds paths of
             Inl e \<Rightarrow> Inl e
           | Inr selects \<Rightarrow>
               (case reduce_union selects of
                  Inl e \<Rightarrow> Inl e
                | Inr unioned \<Rightarrow>
                    Inr [s ''included'',
                         AsScalar (Select [ArrayAgg (Text ''included.json_object'')]
                                     (Some (Subquery unioned ''included'')))])))"

text \<open>
  \<^verbatim>\<open>select\<close> prints the compiled query before it returns it: the state is what has
  been printed so far, one entry per printed query.
\<close>

type_synonym stdout = "selectable list"

definition select :: "JSONMapping \<Rightarrow> catalog \<Rightarrow> resolver \<Rightarrow> session \<Rightarrow> cls \<Rightarrow> fields \<Rightarrow> string list option \<Rightarrow> stdout \<Rightarrow> (error + selectable) \<times> stdout" where
  "select self cat path_to_relationships session entity flds include out =
     (case build_data self cat session entity flds of
        Inl e \<Rightarrow> (Inl e, out)
      | Inr args \<Rightarrow>
          (case build_included self cat path_to_relationships session entity flds include of
             Inl e \<Rightarrow> (Inl e, out)
           | Inr included \<Rightarrow>
               (let query = Select [JsonBuildObject (args @ included)] (Some (FromEntity entity))
                in (Inr query, out @ [query]))))"

section \<open>The models of the test suite\<close>

text \<open>
  The classes \<^verbatim>\<open>User\<close>, \<^verbatim>\<open>Category\<close>, \<^verbatim>\<open>Article\<close> and \<^verbatim>\<open>Comment\<close> of
  \<^verbatim>\<open>tests/test_json_api.py\<close>, with their back-references, and the mapping the
  tests register (\<^verbatim>\<open>User\<close> has no alias there).
\<close>

definition user_table :: table where
  "user_table = \<lparr> table_name = ''user'', foreign_keys = [] \<rparr>"

definition category_table :: table where
  "category_table =
     \<lparr> table_name = ''category'',
       foreign_keys = [\<lparr> parent = ''parent_id'', target_fullname = ''category.id'' \<rparr>] \<rparr>"

definition article_table :: table where
  "article_table =
     \<lparr> table_name = ''article'',
       foreign_keys =
         [\<lparr> parent = ''category_id'', target_fullname = ''category.id'' \<rparr>,
          \<lparr> parent = ''author_id'', target_fullname = ''user.id'' \<rparr>,
          \<lparr> parent = ''owner_id'', target_fullname = ''user.id'' \<rparr>] \<rparr>"

definition comment_table :: table where
  "comment_table =
     \<lparr> table_name = ''comment'',
       foreign_keys =
         [\<lparr> parent = ''article_id'', target_fullname = ''article.id'' \<rparr>,
          \<lparr> parent = ''author_id'', target_fullname = ''user.id'' \<rparr>] \<rparr>"

definition col :: "table \<Rightarrow> string \<Rightarrow> bool \<Rightarrow> string \<times> column" where
  "col t name pk = (name, \<lparr> column_name = name, primary_key = pk, column_table = t \<rparr>)"

definition rel :: "string \<Rightarrow> cls \<Rightarrow> bool \<Rightarrow> clause \<Rightarrow> string \<times> relationship" where
  "rel name c many cond =
     (name, \<lparr> key = name, mapper_class = c, uselist = many, primaryjoin = cond,
              secondary = None, secondaryjoin = None \<rparr>)"

definition Article_category :: relationship where
  "Article_category = snd (rel ''category'' ''Category'' False ''category.id = article.category_id'')"

definition Article_comments :: relationship where
  "Article_comments = snd (rel ''comments'' ''Comment'' True ''article.id = comment.article_id'')"

definition Category_subcategories :: relationship where
  "Category_subcategories = snd (rel ''subcategories'' ''Category'' True ''category.id = category.parent_id'')"

definition User :: mapped_class where
  "User =
     \<lparr> columns = [col user_table ''id'' True, col user_table ''name'' False],
       relationships =
         [rel ''authored_articles'' ''Article'' True ''article.author_id = user.id'',
          rel ''owned_articles'' ''Article'' True ''article.owner_id = user.id'',
          rel ''comments'' ''Comment'' True ''user.id = comment.author_id''] \<rparr>"

definition Category :: mapped_class where
  "Category =
     \<lparr> columns =
         [col category_table ''id'' True, col category_table ''name'' False,
          col category_table ''created_at'' False, col category_table ''parent_id'' False],
       relationships =
         [rel ''parent'' ''Category'' False ''category.id = category.parent_id'',
          (''subcategories'', Category_subcategories),
          rel ''articles'' ''Article'' True ''category.id = article.category_id''] \<rparr>"

definition Article :: mapped_class where
  "Article =
     \<lparr> columns =
         [col article_table ''id'' True, col article_table ''name'' False,
          col article_table ''content'' False, col article_table ''category_id'' False,
          col article_table ''author_id'' False, col article_table ''owner_id'' False],
       relationships =
         [(''category'', Article_category),
          rel ''author'' ''User'' False ''article.author_id = user.id'',
          rel ''owner'' ''User'' False ''article.owner_id = user.id'',
          (''comments'', Article_comments)] \<rparr>"

definition Comment :: mapped_class where
  "Comment =
     \<lparr> columns =
         [col comment_table ''id'' True, col comment_table ''content'' False,
          col comment_table ''article_id'' False, col comment_table ''author_id'' False],
       relationships =
         [rel ''article'' ''Article'' False ''article.id = comment.article_id'',
          rel ''author'' ''User'' False ''user.id = comment.author_id''] \<rparr>"

definition test_catalog :: catalog where
  "test_catalog =
     map_of [(''User'', User), (''Category'', Category), (''Article'', Article), (''Comment'', Comment)]"

definition test_json :: JSONMapping where
  "test_json =
     init (Some [(''articles'', ''Article''), (''categories'', ''Category''), (''comments'', ''Comment'')])"

text \<open>
  The include paths used below, as \<^verbatim>\<open>path_to_relationships\<close> resolves them from
  \<^verbatim>\<open>Article\<close>; any other attribute lookup fails.
\<close>

definition test_paths :: resolver where
  "test_paths path entity =
     (if entity = ''Article'' \<and> path = ''category'' then Inr [Article_category]
      else if entity = ''Article'' \<and> path = ''comments'' then Inr [Article_comments]
      else if entity = ''Article'' \<and> path = ''category.subcategories''
        then Inr [Article_category, Category_subcategories]
      else if entity = ''Article'' \<and> path = ''category.subcategories.subcategories''
        then Inr [Article_category, Category_subcategories, Category_subcategories]
      else Inl AttributeError)"


text \<open>A class whose primary-key column is not called \<^verbatim>\<open>id\<close>.\<close>

definition Tag :: mapped_class where
  "Tag =
     \<lparr> columns =
         [col \<lparr> table_name = ''tag'', foreign_keys = [] \<rparr> ''code'' True,
          col \<lparr> table_name = ''tag'', foreign_keys = [] \<rparr> ''label'' False],
       relationships = [] \<rparr>"

definition tag_catalog :: catalog where
  "tag_catalog = map_of [(''Tag'', Tag)]"

definition tag_json :: JSONMapping where
  "tag_json = init (Some [(''tags'', ''Tag'')])"

text \<open>
  Two expressions the builder produces on the test models (the theorems below
  show that it does): the \<^verbatim>\<open>data\<close> entry of an article with \<^verbatim>\<open>id\<close> and \<^verbatim>\<open>type\<close>
  only, and the sub-query under \<^verbatim>\<open>data\<close> for the relationship \<^verbatim>\<open>Article.comments\<close>.
\<close>

definition article_data :: "sql_expr list" where
  "article_data =
     [s ''data'',
      AsScalar (Correlate
        (Select [ArrayAgg (Text ''main_json.json_object'')]
           (Some (Alias
              (Select [Label (JsonBuildObject
                                [s ''id'', AttributeExpr (InstrumentedAttribute (Plain ''Article'') ''id''),
                                 s ''type'', s ''articles''])
                             ''json_object''] None)
              ''main_json'')))
        ''Article'')]"


section \<open>Reading the built expressions\<close>

text \<open>
  \<^verbatim>\<open>json_build_object(k1, v1, k2, v2, ...)\<close> takes keys and values in turn: the
  entries of the object an argument list denotes, and their keys.
\<close>

fun pairs_of :: "sql_expr list \<Rightarrow> (sql_expr \<times> sql_expr) list" where
  "pairs_of (k # v # rest) = (k, v) # pairs_of rest"
| "pairs_of _ = []"

definition keys_of :: "sql_expr list \<Rightarrow> sql_expr list" where
  "keys_of args = map fst (pairs_of args)"

text \<open>The dict \<^verbatim>\<open>fields\<close> without the key \<open>k\<close>.\<close>

definition without_key :: "string \<Rightarrow> fields \<Rightarrow> fields" where
  "without_key k flds = map_option (filter (\<lambda>(a, names). a \<noteq> k)) flds"

text \<open>The dict \<^verbatim>\<open>fields\<close> with the name \<open>x\<close> taken out of the list of alias \<open>a\<close>.\<close>

definition without_name :: "string \<Rightarrow> string \<Rightarrow> fields \<Rightarrow> fields" where
  "without_name a x flds =
     map_option (map (\<lambda>(b, names). if b = a then (b, filter (\<lambda>n. n \<noteq> x) names) else (b, names))) flds"

text \<open>
  Two values of \<^verbatim>\<open>fields\<close> agree on a class when every read the builder makes of
  them for that class gives the same answer: the membership tests on its alias,
  the relationships selected through its list, and the columns skipped.
\<close>

definition agree_on :: "JSONMapping \<Rightarrow> catalog \<Rightarrow> fields \<Rightarrow> fields \<Rightarrow> cls \<Rightarrow> bool" where
  "agree_on self cat f g c \<longleftrightarrow>
     (\<forall>a. inversed_getitem self c = Inr a \<longrightarrow>
        fields_select f a = fields_select g a \<and>
        contains f a = contains g a \<and>
        (case getitem f a of Inl e \<Rightarrow> Inl e | Inr names \<Rightarrow> selected_relationships cat c names) =
        (case getitem g a of Inl e \<Rightarrow> Inl e | Inr names \<Rightarrow> selected_relationships cat c names) \<and>
        (\<forall>m k col. cat c = Some m \<longrightarrow> (k, col) \<in> set (columns m) \<longrightarrow>
           skip_field f a k col = skip_field g a k col))"

section \<open>What the database returns for a relationship's \<open>data\<close>\<close>

text \<open>
  The builder hands the expressions to PostgreSQL (\<^verbatim>\<open>sa.func.array_agg\<close>,
  \<^verbatim>\<open>sa.func.json_build_object\<close>, \<^verbatim>\<open>as_scalar\<close>). Their values, for the rows of
  the related class that satisfy the sub-query's joins and filter:
  \<^item> \<^verbatim>\<open>array_agg\<close> gives one result row, null when there is no input row and
    the array of the values otherwise;
  \<^item> without an aggregate there is one result row for each input row;
  \<^item> a scalar sub-query is null when it has no result row, the value of its row
    when it has one, and an error of the database when it has more.
  A row gives the value of each attribute of the related class.
\<close>

datatype json =
    JNull
  | JNumber int
  | JString string
  | JObject "(string \<times> json) list"
  | JArray "json list"









section \<open>Facts about the test models\<close>

lemma s_inject: "s x = s y \<longleftrightarrow> x = y"
  by (simp add: s_def)

lemma test_json_articles: "inversed_getitem test_json ''Article'' = Inr ''articles''"
  by (simp add: inversed_getitem_def test_json_def init_def)

lemma test_json_categories: "inversed_getitem test_json ''Category'' = Inr ''categories''"
  by (simp add: inversed_getitem_def test_json_def init_def)


lemma test_catalog_Article: "test_catalog ''Article'' = Some Article"
  by (simp add: test_catalog_def)

lemma test_catalog_Category: "test_catalog ''Category'' = Some Category"
  by (simp add: test_catalog_def)


section \<open>Attributes\<close>

lemma keys_of_key_column:
  "keys_of (concat (map (\<lambda>(k, c). [s k, ColumnExpr c]) xs)) = map (\<lambda>(k, c). s k) xs"
  by (induction xs) (auto simp: keys_of_def)

lemma build_attributes_Inr:
  assumes "inversed_getitem self entity = Inr a" and "cat entity = Some m"
  shows "build_attributes self cat entity flds =
           Inr (concat (map (\<lambda>(k, c). [s k, ColumnExpr c])
                  (filter (\<lambda>(k, c). \<not> skip_field flds a k c) (columns m))))"
  using assms by (simp add: build_attributes_def inspect_def)

lemma keys_of_build_attributes:
  assumes "inversed_getitem self entity = Inr a" and "cat entity = Some m"
    and "build_attributes self cat entity flds = Inr attrs"
  shows "keys_of attrs = map (\<lambda>(k, c). s k) (filter (\<lambda>(k, c). \<not> skip_field flds a k c) (columns m))"
proof -
  have "attrs = concat (map (\<lambda>(k, c). [s k, ColumnExpr c])
                  (filter (\<lambda>(k, c). \<not> skip_field flds a k c) (columns m)))"
    using assms build_attributes_Inr [where cat = cat, OF assms(1,2), of flds] by simp
  then show ?thesis
    by (simp only: keys_of_key_column)
qed

text \<open>
  Claim C4. When the alias of a registered, mapped class is a key of \<^verbatim>\<open>fields\<close>
  with the list \<open>F\<close>, \<^verbatim>\<open>build_attributes\<close> returns, and the keys it emits are
  exactly the names of \<open>F\<close> that are columns of the class which are neither primary
  key nor parent of a foreign key.
\<close>

theorem attributes_selection_narrowing:
  assumes "inversed_getitem self entity = Inr a" and "cat entity = Some m"
    and "map_of d a = Some F"
  shows "\<exists>attrs. build_attributes self cat entity (Some d) = Inr attrs \<and>
           set (keys_of attrs) =
             s ` (set F \<inter> {k. \<exists>c. (k, c) \<in> set (columns m) \<and> \<not> primary_key c \<and> \<not> has_foreign_key c})"
proof -
  obtain attrs where b: "build_attributes self cat entity (Some d) = Inr attrs"
    using build_attributes_Inr [where cat = cat, OF assms(1,2)] by blast
  have t: "truthy (Some d)"
    using assms(3) by (cases d) auto
  have skip: "skip_field (Some d) a k c \<longleftrightarrow> primary_key c \<or> has_foreign_key c \<or> k \<notin> set F" for k c
    using t assms(3) by (simp add: skip_field_def)
  have "set (keys_of attrs) =
          s ` (set F \<inter> {k. \<exists>c. (k, c) \<in> set (columns m) \<and> \<not> primary_key c \<and> \<not> has_foreign_key c})"
    unfolding keys_of_build_attributes [where cat = cat, OF assms(1,2) b]
    by (auto simp: skip image_iff)
  with b show ?thesis by blast
qed

theorem attributes_selection_narrowing_witness:
  "inversed_getitem test_json ''Article'' = Inr ''articles'' \<and>
   test_catalog ''Article'' = Some Article \<and>
   map_of [(''articles'', [''name'', ''content''])] ''articles'' = Some [''name'', ''content''] \<and>
   (\<exists>attrs. build_attributes test_json test_catalog ''Article''
               (Some [(''articles'', [''name'', ''content''])]) = Inr attrs \<and>
      set (keys_of attrs) =
        s ` (set [''name'', ''content''] \<inter>
             {k. \<exists>c. (k, c) \<in> set (columns Article) \<and> \<not> primary_key c \<and> \<not> has_foreign_key c}))"
proof -
  have m: "map_of [(''articles'', [''name'', ''content''])] ''articles'' = Some [''name'', ''content'']"
    by simp
  show ?thesis
    using attributes_selection_narrowing [where cat = test_catalog, OF test_json_articles test_catalog_Article m]
      test_json_articles test_catalog_Article m
    by blast
qed

text \<open>
  Claim C7, as stated, at \<^verbatim>\<open>fields={'articles': ['name', 'bogus']}\<close>: the claim
  expects a key \<^verbatim>\<open>'bogus'\<close> with a null value; \<^verbatim>\<open>build_attributes\<close> emits the
  key \<^verbatim>\<open>'name'\<close> with its column and nothing else.
\<close>

theorem absent_field_null_counterexample:
  "build_attributes test_json test_catalog ''Article'' (Some [(''articles'', [''name'', ''bogus''])])
     = Inr [s ''name'', ColumnExpr (snd (col article_table ''name'' False))]"
  by (simp add: build_attributes_Inr [where cat = test_catalog, OF test_json_articles test_catalog_Article]
      Article_def col_def skip_field_def has_foreign_key_def article_table_def)

text \<open>
  Claim C7, amended. A selected name that is not a column of the class is left out:
  for a registered, mapped class \<^verbatim>\<open>build_attributes\<close> returns without raising,
  whatever \<^verbatim>\<open>fields\<close> holds, and no key of its result is that name.
\<close>

theorem absent_field_omitted:
  assumes "inversed_getitem self entity = Inr a" and "cat entity = Some m"
    and "x \<notin> fst ` set (columns m)"
  shows "\<exists>attrs. build_attributes self cat entity flds = Inr attrs \<and> s x \<notin> set (keys_of attrs)"
proof -
  obtain attrs where b: "build_attributes self cat entity flds = Inr attrs"
    using build_attributes_Inr [where cat = cat, OF assms(1,2)] by blast
  have "s x \<notin> set (keys_of attrs)"
    unfolding keys_of_build_attributes [where cat = cat, OF assms(1,2) b]
    using assms(3) by (auto simp: s_inject image_iff)
  with b show ?thesis by blast
qed

theorem absent_field_omitted_witness:
  "inversed_getitem test_json ''Article'' = Inr ''articles'' \<and>
   test_catalog ''Article'' = Some Article \<and>
   ''bogus'' \<notin> fst ` set (columns Article) \<and>
   (\<exists>attrs. build_attributes test_json test_catalog ''Article''
               (Some [(''articles'', [''name'', ''bogus''])]) = Inr attrs \<and>
      s ''bogus'' \<notin> set (keys_of attrs))"
proof -
  have x: "''bogus'' \<notin> fst ` set (columns Article)"
    by (simp add: Article_def col_def)
  show ?thesis
    using absent_field_omitted [where cat = test_catalog, OF test_json_articles test_catalog_Article x]
      test_json_articles test_catalog_Article x
    by blast
qed

section \<open>\<open>id\<close> and \<open>type\<close>\<close>

text \<open>
  Claim C5, as stated, at a registered class whose primary-key column is called
  \<^verbatim>\<open>code\<close> and which has no attribute \<^verbatim>\<open>id\<close>: \<^verbatim>\<open>build_id_and_type\<close> reads
  \<^verbatim>\<open>model.id\<close> and ends with an \<^verbatim>\<open>AttributeError\<close>.
\<close>

theorem id_and_type_primary_key_counterexample:
  "inversed_getitem tag_json ''Tag'' = Inr ''tags'' \<and>
   map_of (columns Tag) ''code'' = Some (snd (col \<lparr> table_name = ''tag'', foreign_keys = [] \<rparr> ''code'' True)) \<and>
   build_id_and_type tag_json tag_catalog ''Tag'' = Inl AttributeError"
  by (simp add: build_id_and_type_def getattr_def inversed_getitem_def tag_json_def init_def
      tag_catalog_def Tag_def col_def)

text \<open>
  Claim C5, amended. \<^verbatim>\<open>build_id_and_type\<close> takes no field selection. For a
  registered, mapped class it returns the registered alias as \<^verbatim>\<open>type\<close> and the
  attribute named \<^verbatim>\<open>id\<close> of the class as \<^verbatim>\<open>id\<close> (the primary key when that is
  the attribute so named); a class with no attribute of that name gives an
  \<^verbatim>\<open>AttributeError\<close>.
\<close>

theorem id_and_type_of_registered:
  assumes "inversed_getitem self model = Inr a" and "cat model = Some m"
  shows "build_id_and_type self cat model =
           (if ''id'' \<in> fst ` set (columns m) \<or> ''id'' \<in> fst ` set (relationships m)
            then Inr [s ''id'', AttributeExpr (InstrumentedAttribute (Plain model) ''id''), s ''type'', s a]
            else Inl AttributeError)"
  using assms by (simp add: build_id_and_type_def getattr_def)

theorem id_and_type_of_registered_witness:
  "inversed_getitem test_json ''Article'' = Inr ''articles'' \<and>
   test_catalog ''Article'' = Some Article \<and>
   build_id_and_type test_json test_catalog ''Article'' =
     Inr [s ''id'', AttributeExpr (InstrumentedAttribute (Plain ''Article'') ''id''), s ''type'', s ''articles'']"
proof -
  have "''id'' \<in> fst ` set (columns Article)"
    by (simp add: Article_def col_def)
  then show ?thesis
    using id_and_type_of_registered [where cat = test_catalog, OF test_json_articles test_catalog_Article]
      test_json_articles test_catalog_Article
    by simp
qed

section \<open>Relationships and what the database returns for them\<close>












section \<open>\<open>select_aggregate\<close> on a chain\<close>


section \<open>\<open>select\<close>\<close>

lemma test_build_data_Article:
  "\<not> fields_select flds ''articles'' \<Longrightarrow>
   build_data test_json test_catalog session ''Article'' flds = Inr article_data"
  by (simp add: build_data_def test_json_articles build_id_and_type_def getattr_def
      test_catalog_Article Article_def col_def article_data_def)



subsection \<open>An include list without \<open>fields\<close>\<close>

lemma included_select_None:
  "included_select self cat session entity None rels index \<noteq> Inr q"
  by (simp add: included_select_def split: sum.splits)

lemma included_prefixes_None:
  "included_prefixes self cat session entity None rels indices = Inr qs \<Longrightarrow> indices = [] \<and> qs = []"
  by (cases indices) (auto simp: included_select_None split: sum.splits)

lemma included_selects_None:
  "included_selects self cat r session entity None paths = Inr qs \<Longrightarrow> qs = []"
proof (induction paths arbitrary: qs)
  case Nil
  then show ?case by simp
next
  case (Cons p ps)
  from Cons.prems obtain rels qs1 qs2 where
    "included_prefixes self cat session entity None rels [0..<length rels] = Inr qs1"
    "included_selects self cat r session entity None ps = Inr qs2"
    "qs = qs1 @ qs2"
    by (auto split: sum.splits)
  then show ?case
    using Cons.IH included_prefixes_None by fastforce
qed

lemma build_included_None:
  "\<exists>e. build_included self cat r session entity None (Some (p # ps)) = Inl e"
proof (cases "included_selects self cat r session entity None (p # ps)")
  case (Inl e)
  then show ?thesis by (simp add: build_included_def)
next
  case (Inr qs)
  then have "qs = []" by (rule included_selects_None)
  with Inr show ?thesis by (simp add: build_included_def reduce_union_def)
qed

lemma build_included_None_TypeError:
  assumes "r p entity = Inr (rel0 # rels)"
    and "inversed_getitem self (mapper_class rel0) = Inr a"
    and "build_id_and_type self cat (mapper_class rel0) = Inr x"
  shows "build_included self cat r session entity None (Some (p # ps)) = Inl TypeError"
proof -
  have "included_select self cat session entity None (rel0 # rels) 0 = Inl TypeError"
    using assms(2,3) by (simp add: included_select_def)
  then have "included_prefixes self cat session entity None (rel0 # rels) [0..<length (rel0 # rels)] = Inl TypeError"
    by (simp add: upt_conv_Cons del: upt_Suc)
  then show ?thesis
    using assms(1) by (simp add: build_included_def)
qed

text \<open>
  Claim C10. With \<^verbatim>\<open>fields=None\<close> and a non-empty include list \<^verbatim>\<open>select\<close>
  never returns a query. When the root's data builds, the first path resolves to
  a non-empty chain and the class of its first relationship is registered and has
  an \<^verbatim>\<open>id\<close>, the exception is the \<^verbatim>\<open>TypeError\<close> of the membership test
  \<^verbatim>\<open>cls_alias in fields\<close> on \<^verbatim>\<open>None\<close>.
\<close>

theorem include_without_fields_fails:
  "(\<exists>e. fst (select self cat r session entity None (Some (p # ps)) out) = Inl e) \<and>
   (\<forall>args rel0 rels a x.
      build_data self cat session entity None = Inr args \<and>
      r p entity = Inr (rel0 # rels) \<and>
      inversed_getitem self (mapper_class rel0) = Inr a \<and>
      build_id_and_type self cat (mapper_class rel0) = Inr x \<longrightarrow>
      fst (select self cat r session entity None (Some (p # ps)) out) = Inl TypeError)"
proof (intro conjI allI impI)
  show "\<exists>e. fst (select self cat r session entity None (Some (p # ps)) out) = Inl e"
    using build_included_None [of self cat r session entity p ps]
    by (auto simp: select_def split: sum.splits)
next
  fix args rel0 rels a x
  assume h: "build_data self cat session entity None = Inr args \<and>
      r p entity = Inr (rel0 # rels) \<and>
      inversed_getitem self (mapper_class rel0) = Inr a \<and>
      build_id_and_type self cat (mapper_class rel0) = Inr x"
  then have "build_included self cat r session entity None (Some (p # ps)) = Inl TypeError"
    using build_included_None_TypeError by blast
  with h show "fst (select self cat r session entity None (Some (p # ps)) out) = Inl TypeError"
    by (simp add: select_def)
qed

theorem include_without_fields_fails_witness:
  "(\<exists>e. fst (select test_json test_catalog test_paths 0 ''Article'' None (Some [''category'']) []) = Inl e) \<and>
   build_data test_json test_catalog 0 ''Article'' None = Inr article_data \<and>
   test_paths ''category'' ''Article'' = Inr [Article_category] \<and>
   inversed_getitem test_json (mapper_class Article_category) = Inr ''categories'' \<and>
   build_id_and_type test_json test_catalog (mapper_class Article_category) =
     Inr [s ''id'', AttributeExpr (InstrumentedAttribute (Plain ''Category'') ''id''), s ''type'', s ''categories''] \<and>
   fst (select test_json test_catalog test_paths 0 ''Article'' None (Some [''category'']) []) = Inl TypeError"
proof -
  have d: "build_data test_json test_catalog 0 ''Article'' None = Inr article_data"
    by (simp add: test_build_data_Article fields_select_def)
  have p: "test_paths ''category'' ''Article'' = Inr [Article_category]"
    by (simp add: test_paths_def)
  have a: "inversed_getitem test_json (mapper_class Article_category) = Inr ''categories''"
    by (simp add: Article_category_def rel_def test_json_categories)
  have i: "build_id_and_type test_json test_catalog (mapper_class Article_category) =
     Inr [s ''id'', AttributeExpr (InstrumentedAttribute (Plain ''Category'') ''id''), s ''type'', s ''categories'']"
    by (simp add: Article_category_def rel_def build_id_and_type_def test_json_categories getattr_def
        test_catalog_Category Category_def col_def)
  show ?thesis
    using include_without_fields_fails [of test_json test_catalog test_paths 0 "''Article''" "''category''" "[]" "[]"]
      d p a i
    by blast
qed

subsection \<open>An include list that gives no sub-query\<close>




subsection \<open>Selections the builder cannot tell apart\<close>

lemma build_attributes_cong:
  assumes "agree_on self cat f g entity"
  shows "build_attributes self cat entity f = build_attributes self cat entity g"
proof (cases "inversed_getitem self entity")
  case (Inl e)
  then show ?thesis by (simp add: build_attributes_def)
next
  case (Inr a)
  show ?thesis
  proof (cases "cat entity")
    case None
    with Inr show ?thesis by (simp add: build_attributes_def inspect_def)
  next
    case (Some m)
    have "filter (\<lambda>(k, c). \<not> skip_field f a k c) (columns m) =
          filter (\<lambda>(k, c). \<not> skip_field g a k c) (columns m)"
      using assms Inr Some by (intro filter_cong refl) (auto simp: agree_on_def)
    with Inr Some show ?thesis by (simp add: build_attributes_def inspect_def)
  qed
qed

lemma build_relationships_cong:
  assumes "agree_on self cat f g entity"
  shows "build_relationships self cat session entity f = build_relationships self cat session entity g"
proof (cases "inversed_getitem self entity")
  case (Inl e)
  then show ?thesis by (simp add: build_relationships_def)
next
  case (Inr a)
  have eq: "(case getitem f a of Inl e \<Rightarrow> Inl e | Inr names \<Rightarrow> selected_relationships cat entity names) =
        (case getitem g a of Inl e \<Rightarrow> Inl e | Inr names \<Rightarrow> selected_relationships cat entity names)"
    using assms Inr by (simp add: agree_on_def)
  have "build_relationships self cat session entity h =
          (case (case getitem h a of Inl e \<Rightarrow> Inl e | Inr names \<Rightarrow> selected_relationships cat entity names) of
             Inl e \<Rightarrow> Inl e
           | Inr rels \<Rightarrow> json_relationships self cat session entity rels)" for h
    using Inr by (simp add: build_relationships_def split: sum.splits)
  then show ?thesis by (simp add: eq)
qed

lemma build_data_cong:
  assumes "agree_on self cat f g entity"
  shows "build_data self cat session entity f = build_data self cat session entity g"
proof (cases "inversed_getitem self entity")
  case (Inl e)
  then show ?thesis by (simp add: build_data_def)
next
  case (Inr a)
  have "fields_select f a = fields_select g a"
    using assms Inr by (simp add: agree_on_def)
  then show ?thesis
    using Inr by (simp add: build_data_def build_attrs_and_relationships_def
        build_attributes_cong [OF assms] build_relationships_cong [OF assms] cong: sum.case_cong if_cong)
qed

lemma included_select_cong:
  assumes "\<And>c. agree_on self cat f g c"
  shows "included_select self cat session entity f rels index = included_select self cat session entity g rels index"
proof (cases "inversed_getitem self (mapper_class (rels ! index))")
  case (Inl e)
  then show ?thesis by (simp add: included_select_def)
next
  case (Inr a)
  have "contains f a = contains g a"
    using assms [of "mapper_class (rels ! index)"] Inr by (simp add: agree_on_def)
  then show ?thesis
    using Inr by (simp add: included_select_def build_attributes_cong [OF assms] cong: sum.case_cong if_cong)
qed

lemma included_prefixes_cong:
  assumes "\<And>c. agree_on self cat f g c"
  shows "included_prefixes self cat session entity f rels indices = included_prefixes self cat session entity g rels indices"
  by (induction indices) (simp_all add: included_select_cong [OF assms] cong: sum.case_cong)

lemma included_selects_cong:
  assumes "\<And>c. agree_on self cat f g c"
  shows "included_selects self cat r session entity f paths = included_selects self cat r session entity g paths"
  by (induction paths) (simp_all add: included_prefixes_cong [OF assms] cong: sum.case_cong)

lemma select_cong:
  assumes "\<And>c. agree_on self cat f g c"
  shows "select self cat r session entity f include out = select self cat r session entity g include out"
  by (simp only: select_def build_included_def build_data_cong [OF assms] included_selects_cong [OF assms])

lemma fields_select_iff:
  "fields_select f a \<longleftrightarrow> (\<exists>d. f = Some d \<and> map_of d a \<noteq> None)"
proof (cases f)
  case None
  then show ?thesis by (simp add: fields_select_def)
next
  case (Some d)
  then show ?thesis by (cases d) (auto simp: fields_select_def)
qed

lemma skip_field_iff:
  "skip_field f a k c \<longleftrightarrow>
     primary_key c \<or> has_foreign_key c \<or> (\<exists>d l. f = Some d \<and> map_of d a = Some l \<and> k \<notin> set l)"
proof (cases f)
  case None
  then show ?thesis by (simp add: skip_field_def)
next
  case (Some d)
  then show ?thesis by (cases d) (auto simp: skip_field_def split: option.splits)
qed

lemma map_of_without_key:
  "a \<noteq> k \<Longrightarrow> map_of (filter (\<lambda>(b, names). b \<noteq> k) d) a = map_of d a"
  by (induction d) auto

lemma agree_without_key:
  assumes "\<And>c. inversed_getitem self c \<noteq> Inr k"
  shows "agree_on self cat (without_key k f) f c"
proof -
  have "a \<noteq> k" if "inversed_getitem self c = Inr a" for a
    using that assms by auto
  then show ?thesis
    unfolding agree_on_def
    by (cases f) (auto simp: fields_select_iff skip_field_iff without_key_def map_of_without_key)
qed

lemma init_registered:
  assumes "inversed_getitem (init (Some items)) c = Inr a"
  shows "(a, c) \<in> set items"
proof -
  from assms have "map_of (rev (map (\<lambda>(k, v). (v, k)) items)) c = Some a"
    by (cases items) (auto simp: inversed_getitem_def init_def split: option.splits)
  then have "(c, a) \<in> set (rev (map (\<lambda>(k, v). (v, k)) items))"
    by (rule map_of_SomeD)
  then show ?thesis by auto
qed

text \<open>
  Claim C2, as stated, at \<^verbatim>\<open>fields={'bogus': ['x']}\<close> with the mapping of the
  tests, where \<^verbatim>\<open>'bogus'\<close> is no alias: \<^verbatim>\<open>select\<close> raises nothing and returns
  the query with the \<^verbatim>\<open>id\<close> and \<^verbatim>\<open>type\<close> of the articles.
\<close>

theorem unknown_alias_counterexample:
  "fst (select test_json test_catalog test_paths 0 ''Article'' (Some [(''bogus'', [''x''])]) None [])
     = Inr (Select [JsonBuildObject article_data] (Some (FromEntity ''Article'')))"
  by (simp add: select_def build_included_def test_build_data_Article fields_select_def Let_def)

text \<open>
  Claim C2, amended. A key of \<^verbatim>\<open>fields\<close> that is not an alias of the mapping is
  ignored: \<^verbatim>\<open>select\<close> gives the same result, and prints the same, as with that
  key removed from \<^verbatim>\<open>fields\<close>.
\<close>

theorem unregistered_alias_ignored:
  assumes "k \<notin> fst ` set items"
  shows "select (init (Some items)) cat r session entity (without_key k flds) include out =
         select (init (Some items)) cat r session entity flds include out"
proof (rule select_cong, rule agree_without_key)
  fix c
  show "inversed_getitem (init (Some items)) c \<noteq> Inr k"
    using assms init_registered [of items c k] by force
qed

theorem unregistered_alias_ignored_witness:
  "''bogus'' \<notin> fst ` set [(''articles'', ''Article''), (''categories'', ''Category''), (''comments'', ''Comment'')] \<and>
   select test_json test_catalog test_paths 0 ''Article''
     (without_key ''bogus'' (Some [(''bogus'', [''x'']), (''articles'', [''name''])])) (Some [''category'']) [] =
   select test_json test_catalog test_paths 0 ''Article''
     (Some [(''bogus'', [''x'']), (''articles'', [''name''])]) (Some [''category'']) []"
proof -
  have k: "''bogus'' \<notin> fst ` set [(''articles'', ''Article''), (''categories'', ''Category''), (''comments'', ''Comment'')]"
    by simp
  show ?thesis
    using unregistered_alias_ignored [OF k] k
    unfolding test_json_def by blast
qed

text \<open>
  Claim C6, as stated, at \<^verbatim>\<open>fields={'articles': ['bogus']}\<close>, where \<^verbatim>\<open>bogus\<close> is
  neither a column nor a relationship of \<^verbatim>\<open>Article\<close>: \<^verbatim>\<open>select\<close> raises nothing
  and returns the query with the \<^verbatim>\<open>id\<close> and \<^verbatim>\<open>type\<close> of the articles.
\<close>

theorem unknown_field_name_counterexample:
  "fst (select test_json test_catalog test_paths 0 ''Article'' (Some [(''articles'', [''bogus''])]) None [])
     = Inr (Select [JsonBuildObject article_data] (Some (FromEntity ''Article'')))"
  by (simp add: select_def Let_def build_included_def build_data_def test_json_articles fields_select_def
      build_id_and_type_def getattr_def test_catalog_Article build_attrs_and_relationships_def
      build_attributes_def inspect_def skip_field_def build_relationships_def
      selected_relationships_def List.map_filter_simps Article_def col_def Article_category_def
      Article_comments_def rel_def article_data_def)

lemma map_of_without_name:
  "map_of (map (\<lambda>(b, names). if b = a then (b, filter (\<lambda>n. n \<noteq> x) names) else (b, names)) d) b =
     (if b = a then map_option (filter (\<lambda>n. n \<noteq> x)) (map_of d b) else map_of d b)"
  by (induction d) auto

lemma map_filter_without:
  "h x = None \<Longrightarrow> List.map_filter h (filter (\<lambda>n. n \<noteq> x) names) = List.map_filter h names"
  by (induction names) (auto simp: List.map_filter_simps split: option.splits)

lemma selected_relationships_without:
  assumes "cat c = Some m" and "x \<notin> fst ` set (relationships m)"
  shows "selected_relationships cat c (filter (\<lambda>n. n \<noteq> x) names) = selected_relationships cat c names"
proof -
  have "map_of (relationships m) x = None"
    using assms(2) by (simp add: map_of_eq_None_iff)
  then have eq: "List.map_filter (map_of (relationships m)) (filter (\<lambda>n. n \<noteq> x) names) =
                 List.map_filter (map_of (relationships m)) names"
    by (rule map_filter_without)
  have "selected_relationships cat c ns = Inr (List.map_filter (map_of (relationships m)) ns)" for ns
    using assms(1) by (simp add: selected_relationships_def inspect_def List.map_filter_simps)
  then show ?thesis
    by (simp add: eq)
qed

lemma agree_without_name:
  assumes "\<And>c. inversed_getitem self c = Inr a \<Longrightarrow> c = root"
    and "cat root = Some m"
    and "x \<notin> fst ` set (columns m)" and "x \<notin> fst ` set (relationships m)"
  shows "agree_on self cat (without_name a x f) f c"
proof (cases f)
  case None
  then show ?thesis by (simp add: agree_on_def without_name_def)
next
  case (Some d)
  show ?thesis
    unfolding agree_on_def
  proof (intro allI impI)
    fix b
    assume b: "inversed_getitem self c = Inr b"
    show "fields_select (without_name a x f) b = fields_select f b \<and>
        contains (without_name a x f) b = contains f b \<and>
        (case getitem (without_name a x f) b of Inl e \<Rightarrow> Inl e | Inr names \<Rightarrow> selected_relationships cat c names) =
        (case getitem f b of Inl e \<Rightarrow> Inl e | Inr names \<Rightarrow> selected_relationships cat c names) \<and>
        (\<forall>m k col. cat c = Some m \<longrightarrow> (k, col) \<in> set (columns m) \<longrightarrow>
           skip_field (without_name a x f) b k col = skip_field f b k col)"
    proof (cases "b = a")
      case False
      then show ?thesis
        using Some by (auto simp: fields_select_iff skip_field_iff without_name_def map_of_without_name)
    next
      case True
      with b assms(1) have c: "c = root" by simp
      have "k \<noteq> x" if "(k, col) \<in> set (columns m)" for k col
        using that assms(3) by force
      then show ?thesis
        using Some True c assms(2) selected_relationships_without [where cat = cat, OF assms(2,4)]
        by (auto simp: fields_select_iff skip_field_iff without_name_def map_of_without_name
            split: option.splits)
    qed
  qed
qed

text \<open>
  Claim C6, amended. A name in the root alias's list that is neither a column nor
  a relationship of the root type is ignored: with a mapping whose aliases are
  distinct, \<^verbatim>\<open>select\<close> gives the same result, and prints the same, as with that
  name removed from the list.
\<close>

theorem unknown_field_name_ignored:
  assumes "distinct (map fst items)"
    and "inversed_getitem (init (Some items)) root = Inr a"
    and "cat root = Some m"
    and "x \<notin> fst ` set (columns m)" and "x \<notin> fst ` set (relationships m)"
  shows "select (init (Some items)) cat r session root (without_name a x flds) include out =
         select (init (Some items)) cat r session root flds include out"
proof (rule select_cong, rule agree_without_name [where root = root and m = m])
  fix c
  assume "inversed_getitem (init (Some items)) c = Inr a"
  then have "(a, c) \<in> set items" by (rule init_registered)
  moreover have "(a, root) \<in> set items" using assms(2) by (rule init_registered)
  ultimately show "c = root"
    using assms(1) by (meson eq_key_imp_eq_value)
qed (use assms in auto)

theorem unknown_field_name_ignored_witness:
  "distinct (map fst [(''articles'', ''Article''), (''categories'', ''Category''), (''comments'', ''Comment'')]) \<and>
   inversed_getitem test_json ''Article'' = Inr ''articles'' \<and>
   test_catalog ''Article'' = Some Article \<and>
   ''bogus'' \<notin> fst ` set (columns Article) \<and> ''bogus'' \<notin> fst ` set (relationships Article) \<and>
   select test_json test_catalog test_paths 0 ''Article''
     (without_name ''articles'' ''bogus'' (Some [(''articles'', [''name'', ''bogus'', ''category''])]))
     (Some [''category'']) [] =
   select test_json test_catalog test_paths 0 ''Article''
     (Some [(''articles'', [''name'', ''bogus'', ''category''])]) (Some [''category'']) []"
proof -
  have d: "distinct (map fst [(''articles'', ''Article''), (''categories'', ''Category''), (''comments'', ''Comment'')])"
    by simp
  have c: "''bogus'' \<notin> fst ` set (columns Article)"
    by (simp add: Article_def col_def)
  have r: "''bogus'' \<notin> fst ` set (relationships Article)"
    by (simp add: Article_def rel_def)
  show ?thesis
    using unknown_field_name_ignored [where cat = test_catalog, OF d test_json_articles [unfolded test_json_def]
        test_catalog_Article c r]
      d test_json_articles test_catalog_Article c r
    unfolding test_json_def by blast
qed

end
